theory Spec2Isabelle
  imports Complex_Main
begin

section \<open>Numbers and vectors\<close>

text \<open>
  The scene computes with JavaScript numbers and GLSL floats. They are modelled as
  real numbers: rounding, overflow and underflow are outside the model. An operation
  whose JavaScript result is not a finite number (\<open>Infinity\<close>, \<open>NaN\<close>) or whose GLSL
  result is undefined returns \<open>None\<close>.

  \<open>THREE.Vector3\<close> is a triple of numbers; \<open>length3\<close> is its Euclidean norm.
\<close>

datatype Vector3 = Vector3 (vx: real) (vy: real) (vz: real)

definition length3 :: "Vector3 \<Rightarrow> real" where
  "length3 a = sqrt ((vx a)\<^sup>2 + (vy a)\<^sup>2 + (vz a)\<^sup>2)"

definition sub3 :: "Vector3 \<Rightarrow> Vector3 \<Rightarrow> Vector3" where
  "sub3 a b = Vector3 (vx a - vx b) (vy a - vy b) (vz a - vz b)"

text \<open>
  \<open>Vector3.lerp(v, alpha)\<close> of three.js: \<open>this.x += (v.x - this.x) * alpha\<close>, and the same
  for \<open>y\<close> and \<open>z\<close>.
\<close>

definition lerp3 :: "Vector3 \<Rightarrow> Vector3 \<Rightarrow> real \<Rightarrow> Vector3" where
  "lerp3 a b alpha =
     Vector3 (vx a + (vx b - vx a) * alpha)
             (vy a + (vy b - vy a) * alpha)
             (vz a + (vz b - vz a) * alpha)"

text \<open>The closed segment between two points: the convex combinations of its ends.\<close>

definition on_segment :: "Vector3 \<Rightarrow> Vector3 \<Rightarrow> Vector3 \<Rightarrow> bool" where
  "on_segment a b q \<longleftrightarrow> (\<exists>s. 0 \<le> s \<and> s \<le> 1 \<and> q = lerp3 a b s)"

section \<open>Point samplers\<close>

text \<open>
  \<open>randomPointInSphere(radius)\<close>. The three calls of \<open>Math.random()\<close> are the inputs
  \<open>u\<close>, \<open>v\<close> and \<open>w\<close>, in the order of the calls; each lies in \<open>[0, 1)\<close>.
  \<open>Math.acos\<close> is \<open>arccos\<close> (its argument \<open>2 * v - 1\<close> lies in \<open>[-1, 1)\<close>), \<open>Math.cbrt\<close>
  is \<open>root 3\<close>.
\<close>

definition randomPointInSphere :: "real \<Rightarrow> real \<Rightarrow> real \<Rightarrow> real \<Rightarrow> Vector3" where
  "randomPointInSphere radius u v w =
     (let theta = u * 2 * pi;
          phi = arccos (2 * v - 1);
          r = root 3 w * radius
      in Vector3 (r * sin phi * cos theta) (r * sin phi * sin theta) (r * cos phi))"

text \<open>
  \<open>randomPointOnCone(height, baseRadius)\<close>. The three calls of \<open>Math.random()\<close> are the
  inputs \<open>a\<close> (height), \<open>b\<close> (angle) and \<open>c\<close> (jitter). \<open>coneY\<close>, \<open>coneRadius\<close> and
  \<open>coneJitter\<close> are the local constants \<open>y\<close>, \<open>radius\<close> and \<open>jitter\<close> of the function.
  \<open>y / height\<close> divides by zero only for \<open>height = 0\<close>, where JavaScript gives \<open>NaN\<close>:
  the sampler is defined for \<open>height \<noteq> 0\<close>.
\<close>

definition coneY :: "real \<Rightarrow> real \<Rightarrow> real" where
  "coneY height a = a * height"

definition coneRadius :: "real \<Rightarrow> real \<Rightarrow> real \<Rightarrow> real" where
  "coneRadius height baseRadius a = (1 - coneY height a / height) * baseRadius"

definition coneJitter :: "real \<Rightarrow> real" where
  "coneJitter c = (c - 0.5) * 0.15"

definition randomPointOnCone :: "real \<Rightarrow> real \<Rightarrow> real \<Rightarrow> real \<Rightarrow> real \<Rightarrow> Vector3 option" where
  "randomPointOnCone height baseRadius a b c =
     (if height = 0 then None
      else
        let y = coneY height a;
            radius = coneRadius height baseRadius a;
            angle = b * pi * 2;
            jitter = coneJitter c
        in Some (Vector3 ((radius + jitter) * cos angle)
                         (y - height * 0.45)
                         ((radius + jitter) * sin angle)))"

text \<open>The distance of a point from the vertical (\<open>y\<close>) axis.\<close>

definition horizontal :: "Vector3 \<Rightarrow> real" where
  "horizontal q = sqrt ((vx q)\<^sup>2 + (vz q)\<^sup>2)"

section \<open>Morph controller\<close>

datatype TreeMode = CHAOS | FORMED

text \<open>
  \<open>THREE.MathUtils\<close> is the three.js library, a dependency of the scene. Its functions
  are written out as the library defines them:
  \<^verbatim>\<open>lerp(x, y, t) = (1 - t) * x + t * y\<close>,
  \<^verbatim>\<open>damp(x, y, lambda, dt) = lerp(x, y, 1 - Math.exp(-lambda * dt))\<close>, and
  \<^verbatim>\<open>smoothstep(x, min, max)\<close>, which returns 0 for \<open>x <= min\<close>, 1 for \<open>x >= max\<close>, and
  otherwise \<open>x * x * (3 - 2 * x)\<close> for the rescaled \<open>x = (x - min) / (max - min)\<close>.
\<close>

definition lerp :: "real \<Rightarrow> real \<Rightarrow> real \<Rightarrow> real" where
  "lerp x y t = (1 - t) * x + t * y"

definition damp :: "real \<Rightarrow> real \<Rightarrow> real \<Rightarrow> real \<Rightarrow> real" where
  "damp x y lambda dt = lerp x y (1 - exp (- lambda * dt))"

definition smoothstep :: "real \<Rightarrow> real \<Rightarrow> real \<Rightarrow> real" where
  "smoothstep x lo hi =
     (if x \<le> lo then 0
      else if x \<ge> hi then 1
      else let x' = (x - lo) / (hi - lo) in x' * x' * (3 - 2 * x'))"

text \<open>
  \<open>LuxuryScene\<close>: the progress starts at the target of the initial mode, and every frame
  replaces it by \<open>damp(progress, target, speed, delta)\<close> with \<open>speed = 0.65\<close>. A frame is
  the pair of the mode at that frame and the frame's \<open>delta\<close>.
\<close>

definition modeTarget :: "TreeMode \<Rightarrow> real" where
  "modeTarget m = (if m = FORMED then 1 else 0)"

definition initialProgress :: "TreeMode \<Rightarrow> real" where
  "initialProgress m = (if m = FORMED then 1 else 0)"

definition speed :: real where
  "speed = 0.65"

definition frameUpdate :: "TreeMode \<Rightarrow> real \<Rightarrow> real \<Rightarrow> real" where
  "frameUpdate m delta progress = damp progress (modeTarget m) speed delta"

text \<open>
  The progress values of a run: the value before the first frame, then the value after
  each frame.
\<close>

fun progressTrace :: "real \<Rightarrow> (TreeMode \<times> real) list \<Rightarrow> real list" where
  "progressTrace progress [] = [progress]"
| "progressTrace progress ((m, delta) # frames) =
     progress # progressTrace (frameUpdate m delta progress) frames"

section \<open>Ornament group renderer\<close>

text \<open>
  The operator \<open>**\<close> (\<open>Math.pow\<close>) on real arguments: any base to the power 0 is 1; a
  positive base gives \<open>exp (y * ln x)\<close>; base 0 gives 0 for a positive exponent and
  \<open>Infinity\<close> for a negative one; a negative base gives a number for an integer exponent
  only, and \<open>NaN\<close> otherwise.
\<close>

definition js_pow :: "real \<Rightarrow> real \<Rightarrow> real option" where
  "js_pow x y =
     (if y = 0 then Some 1
      else if 0 < x then Some (x powr y)
      else if x = 0 then (if 0 < y then Some 0 else None)
      else if y \<in> \<int> then Some (x powi \<lfloor>y\<rfloor>)
      else None)"

text \<open>
  The interpolation fraction of \<open>OrnamentInstances\<close>:
  \<open>t = easedProgress ** (1 / weight)\<close> with
  \<open>easedProgress = smoothstep(progress, 0, 1)\<close>. For \<open>weight = 0\<close> the exponent is
  \<open>Infinity\<close>, and an eased progress below 1 gives 0, the eased progress 1 gives \<open>NaN\<close>.
\<close>

definition ornamentT :: "real \<Rightarrow> real \<Rightarrow> real option" where
  "ornamentT progress weight =
     (let easedProgress = smoothstep progress 0 1
      in if weight = 0 then (if easedProgress < 1 then Some 0 else None)
         else js_pow easedProgress (1 / weight))"

text \<open>
  What one pass of the loop writes into \<open>dummy\<close> for one member: the position
  \<open>chaos[i].clone().lerp(target[i], t)\<close>, the rotation \<open>(t * pi * 1.4, t * pi * 2.2, 0)\<close> and
  the scale \<open>0.12 + (1 - t) * 0.04\<close>.
\<close>

datatype Instance = Instance (instPosition: Vector3) (instRotation: Vector3) (instScale: real)

definition ornamentInstance :: "Vector3 \<Rightarrow> Vector3 \<Rightarrow> real \<Rightarrow> real \<Rightarrow> Instance option" where
  "ornamentInstance chaosPoint targetPoint weight progress =
     (case ornamentT progress weight of
        None \<Rightarrow> None
      | Some t \<Rightarrow>
          Some (Instance (lerp3 chaosPoint targetPoint t)
                         (Vector3 (t * pi * 1.4) (t * pi * 2.2) 0)
                         (0.12 + (1 - t) * 0.04)))"

text \<open>
  An ornament group (\<open>OrnamentDefinition\<close>, without its colours) and the loop of
  \<open>OrnamentInstances\<close> over the members \<open>0 .. chaos.length - 1\<close>. \<open>useOrnamentSet\<close> pushes to
  \<open>chaos\<close> and \<open>target\<close> together, so both have the same length; a member without a
  target (a \<open>TypeError\<close> in \<open>lerp\<close>) is \<open>None\<close>.
\<close>

record OrnamentDefinition =
  chaos :: "Vector3 list"
  target :: "Vector3 list"
  weight :: real

definition ornamentFrame :: "OrnamentDefinition \<Rightarrow> real \<Rightarrow> Instance option list" where
  "ornamentFrame definition progress =
     map (\<lambda>i. if i < length (target definition)
               then ornamentInstance (chaos definition ! i) (target definition ! i)
                      (weight definition) progress
               else None)
         [0..<length (chaos definition)]"

text \<open>The weights that \<open>GrandTree\<close> gives to the gifts, the globes and the lights.\<close>

definition giftWeight :: real where
  "giftWeight = 1.35"

definition globeWeight :: real where
  "globeWeight = 0.9"

definition lightWeight :: real where
  "lightWeight = 0.6"

section \<open>Foliage vertex shader\<close>

text \<open>
  GLSL \<open>mix(x, y, a)\<close> is \<open>x * (1 - a) + y * a\<close> on every component; \<open>normalize(v)\<close> is
  \<open>v / length(v)\<close>, undefined for the zero vector.
\<close>

definition mix3 :: "Vector3 \<Rightarrow> Vector3 \<Rightarrow> real \<Rightarrow> Vector3" where
  "mix3 a b alpha =
     Vector3 (vx a * (1 - alpha) + vx b * alpha)
             (vy a * (1 - alpha) + vy b * alpha)
             (vz a * (1 - alpha) + vz b * alpha)"

definition normalize3 :: "Vector3 \<Rightarrow> Vector3 option" where
  "normalize3 a =
     (if length3 a = 0 then None
      else Some (Vector3 (vx a / length3 a) (vy a / length3 a) (vz a / length3 a)))"

definition foliageWave :: "real \<Rightarrow> real \<Rightarrow> real" where
  "foliageWave uTime sparkle = sin (uTime * 1.5 + sparkle * 12) * 0.05"

text \<open>
  The model-space position that the vertex shader hands to the model-view and
  projection matrices: \<open>mixedPosition\<close> after \<open>mixedPosition += normalize(mixedPosition) * wave\<close>.
\<close>

definition foliageVertex :: "Vector3 \<Rightarrow> Vector3 \<Rightarrow> real \<Rightarrow> real \<Rightarrow> real \<Rightarrow> Vector3 option" where
  "foliageVertex chaosPoint targetPoint sparkle uProgress uTime =
     (let mixedPosition = mix3 chaosPoint targetPoint uProgress;
          wave = foliageWave uTime sparkle
      in case normalize3 mixedPosition of
           None \<Rightarrow> None
         | Some n \<Rightarrow>
             Some (Vector3 (vx mixedPosition + vx n * wave)
                           (vy mixedPosition + vy n * wave)
                           (vz mixedPosition + vz n * wave)))"

section \<open>Mode driver\<close>

text \<open>
  The state of \<open>App\<close>: the mode, the auto-shift flag and the interval timer that the
  effect has registered (its period in milliseconds), if any. The effect runs again
  whenever \<open>autoShift\<close> changes: its cleanup clears the old interval, and it registers a
  new one of 6500 ms only when auto-shift is on.
\<close>

record App =
  mode :: TreeMode
  autoShift :: bool
  interval :: "nat option"

definition flipMode :: "TreeMode \<Rightarrow> TreeMode" where
  "flipMode prev = (if prev = FORMED then CHAOS else FORMED)"

definition autoShiftEffect :: "bool \<Rightarrow> nat option" where
  "autoShiftEffect enabled = (if \<not> enabled then None else Some 6500)"

definition mounted :: App where
  "mounted = \<lparr>mode = FORMED, autoShift = True, interval = autoShiftEffect True\<rparr>"

text \<open>
  The events that change the state: the registered interval fires (\<open>Tick\<close>, possible only
  while an interval is registered), a click on the mode button, a click on the
  auto-shift button. \<open>step\<close> is \<open>None\<close> for an event that cannot happen in the state.
\<close>

datatype Event = Tick | ClickToggle | ClickAutoShift

fun step :: "Event \<Rightarrow> App \<Rightarrow> App option" where
  "step Tick s =
     (case interval s of
        None \<Rightarrow> None
      | Some ms \<Rightarrow> Some (s\<lparr>mode := flipMode (mode s)\<rparr>))"
| "step ClickToggle s = Some (s\<lparr>mode := flipMode (mode s)\<rparr>)"
| "step ClickAutoShift s =
     Some (s\<lparr>autoShift := \<not> autoShift s, interval := autoShiftEffect (\<not> autoShift s)\<rparr>)"

fun run :: "Event list \<Rightarrow> App \<Rightarrow> App option" where
  "run [] s = Some s"
| "run (e # es) s = (case step e s of None \<Rightarrow> None | Some s' \<Rightarrow> run es s')"

section \<open>Sphere sampler\<close>

lemma length3_spherical:
  "length3 (Vector3 (r * sin p * cos t) (r * sin p * sin t) (r * cos p)) = \<bar>r\<bar>"
proof -
  have "(r * sin p * cos t)\<^sup>2 + (r * sin p * sin t)\<^sup>2 + (r * cos p)\<^sup>2
        = r\<^sup>2 * ((sin p)\<^sup>2 * ((cos t)\<^sup>2 + (sin t)\<^sup>2) + (cos p)\<^sup>2)"
    by (simp only: power_mult_distrib distrib_left mult.assoc)
  also have "\<dots> = r\<^sup>2"
    by simp
  finally show ?thesis
    by (simp add: length3_def)
qed

lemma root3_eighth: "root 3 (1 / 8) = 1 / 2"
proof -
  have "root 3 ((1 / 2) ^ 3) = (1 / 2 :: real)"
    by (rule real_root_power_cancel) simp_all
  then show ?thesis
    by (simp add: power3_eq_cube)
qed

text \<open>
  C6. With the three random draws as inputs \<open>u\<close>, \<open>v\<close>, \<open>w\<close> in \<open>[0, 1)\<close> and a radius
  \<open>R > 0\<close>, the sampled point has Euclidean norm \<open>cbrt w * R\<close>; the norm is at most
  \<open>R\<close>, and it is below \<open>R / 2\<close> exactly when \<open>w < 1 / 8\<close>, so the draws \<open>w\<close> that land
  inside the half-radius ball are the interval \<open>[0, 1/8)\<close> of length \<open>1 / 8\<close>.
\<close>

theorem sphere_sampler_norm:
  assumes "0 < R" and "0 \<le> u" "u < 1" and "0 \<le> v" "v < 1" and "0 \<le> w" "w < 1"
  shows "length3 (randomPointInSphere R u v w) = root 3 w * R
       \<and> length3 (randomPointInSphere R u v w) \<le> R
       \<and> (length3 (randomPointInSphere R u v w) < R / 2 \<longleftrightarrow> w < 1 / 8)"
proof -
  have nonneg: "0 \<le> root 3 w"
    using assms by simp
  have le1: "root 3 w \<le> 1"
    using real_root_le_iff [of 3 w 1] assms by simp
  have norm: "length3 (randomPointInSphere R u v w) = root 3 w * R"
    using nonneg assms(1)
    by (simp add: randomPointInSphere_def Let_def length3_spherical abs_mult)
  have half: "root 3 w < 1 / 2 \<longleftrightarrow> w < 1 / 8"
    using real_root_less_iff [of 3 w "1 / 8"] by (simp add: root3_eighth)
  have "root 3 w * R \<le> 1 * R"
    using le1 assms(1) by (intro mult_right_mono) simp_all
  moreover have "root 3 w * R < R / 2 \<longleftrightarrow> root 3 w < 1 / 2"
    using assms(1) by (simp add: field_simps)
  ultimately show ?thesis
    using norm half by simp
qed

theorem sphere_sampler_norm_witness:
  "length3 (randomPointInSphere 2 0 (1 / 2) (1 / 8)) = root 3 (1 / 8) * 2
   \<and> length3 (randomPointInSphere 2 0 (1 / 2) (1 / 8)) \<le> 2
   \<and> (length3 (randomPointInSphere 2 0 (1 / 2) (1 / 8)) < 2 / 2 \<longleftrightarrow> (1 / 8 :: real) < 1 / 8)"
  using sphere_sampler_norm [of 2 0 "1 / 2" "1 / 8"] by simp

section \<open>Damping of the progress\<close>

lemma damp_convex:
  "damp x y lambda dt = exp (- lambda * dt) * x + (1 - exp (- lambda * dt)) * y"
  by (simp add: damp_def lerp_def)

lemma convex_between:
  fixes e x y :: real
  assumes "0 \<le> e" and "e \<le> 1" and "x \<le> y"
  shows "x \<le> e * x + (1 - e) * y" and "e * x + (1 - e) * y \<le> y"
proof -
  have "0 \<le> (1 - e) * (y - x)"
    using assms by simp
  then show "x \<le> e * x + (1 - e) * y"
    by (simp add: algebra_simps)
  have "0 \<le> e * (y - x)"
    using assms by simp
  then show "e * x + (1 - e) * y \<le> y"
    by (simp add: algebra_simps)
qed

lemma damp_between_up:
  assumes "0 \<le> lambda * dt" and "x \<le> y"
  shows "x \<le> damp x y lambda dt \<and> damp x y lambda dt \<le> y"
proof -
  have "0 \<le> exp (- lambda * dt)" "exp (- lambda * dt) \<le> 1"
    using assms(1) by simp_all
  from convex_between [OF this assms(2)] show ?thesis
    by (simp only: damp_convex)
qed

lemma damp_between_down:
  assumes "0 \<le> lambda * dt" and "y \<le> x"
  shows "y \<le> damp x y lambda dt \<and> damp x y lambda dt \<le> x"
proof -
  have e: "0 \<le> 1 - exp (- lambda * dt)" "1 - exp (- lambda * dt) \<le> 1"
    using assms(1) by simp_all
  have "damp x y lambda dt
        = (1 - exp (- lambda * dt)) * y + (1 - (1 - exp (- lambda * dt))) * x"
    by (simp add: damp_convex)
  with convex_between [OF e assms(2)] show ?thesis
    by (simp only:)
qed

lemma frameUpdate_range:
  assumes "0 \<le> delta" and "0 \<le> progress" and "progress \<le> 1"
  shows "0 \<le> frameUpdate m delta progress \<and> frameUpdate m delta progress \<le> 1"
proof (cases m)
  case CHAOS
  have "0 \<le> speed * delta"
    using assms(1) by (simp add: speed_def)
  from damp_between_down [OF this assms(2)] assms(3) CHAOS show ?thesis
    by (simp add: frameUpdate_def modeTarget_def)
next
  case FORMED
  have "0 \<le> speed * delta"
    using assms(1) by (simp add: speed_def)
  from damp_between_up [OF this assms(3)] assms(2) FORMED show ?thesis
    by (simp add: frameUpdate_def modeTarget_def)
qed

lemma progressTrace_range:
  assumes "\<forall>f \<in> set frames. 0 \<le> snd f" and "0 \<le> progress" and "progress \<le> 1"
  shows "\<forall>q \<in> set (progressTrace progress frames). 0 \<le> q \<and> q \<le> 1"
  using assms
proof (induction frames arbitrary: progress)
  case Nil
  then show ?case by simp
next
  case (Cons f frames)
  obtain m delta where f: "f = (m, delta)"
    by (cases f)
  with Cons.prems have d: "0 \<le> delta"
    by simp
  have step: "0 \<le> frameUpdate m delta progress \<and> frameUpdate m delta progress \<le> 1"
    using frameUpdate_range [OF d] Cons.prems by simp
  have "\<forall>q \<in> set (progressTrace (frameUpdate m delta progress) frames). 0 \<le> q \<and> q \<le> 1"
    using Cons.IH [of "frameUpdate m delta progress"] Cons.prems(1) step by simp
  with Cons.prems show ?case
    by (simp add: f)
qed

text \<open>
  C4. For a progress \<open>p\<close> in \<open>[0, 1]\<close>, a target in \<open>{0, 1}\<close>, every damping rate (a
  non-negative number; the scene's is 0.65) and every non-negative frame delta, one step
  of \<open>damp\<close> returns a value in \<open>[0, 1]\<close>; and along every sequence of frames with
  non-negative deltas, started from a progress in \<open>[0, 1]\<close>, every progress value is in
  \<open>[0, 1]\<close>.
\<close>

theorem damp_stays_in_unit_interval:
  assumes "0 \<le> p" and "p \<le> 1"
  shows "((T = 0 \<or> T = 1) \<longrightarrow> 0 \<le> lambda \<longrightarrow> 0 \<le> dt \<longrightarrow>
            0 \<le> damp p T lambda dt \<and> damp p T lambda dt \<le> 1)
       \<and> ((\<forall>f \<in> set frames. 0 \<le> snd f) \<longrightarrow>
            (\<forall>q \<in> set (progressTrace p frames). 0 \<le> q \<and> q \<le> 1))"
proof -
  have "0 \<le> damp p T lambda dt \<and> damp p T lambda dt \<le> 1"
    if T: "T = 0 \<or> T = 1" and "0 \<le> lambda" and "0 \<le> dt"
  proof -
    have nn: "0 \<le> lambda * dt"
      using that by simp
    from T show ?thesis
    proof
      assume "T = 0"
      with damp_between_down [OF nn, of T p] assms show ?thesis by simp
    next
      assume "T = 1"
      with damp_between_up [OF nn, of p T] assms show ?thesis by simp
    qed
  qed
  then show ?thesis
    using progressTrace_range [of frames p] assms by blast
qed

theorem damp_stays_in_unit_interval_witness:
  "(0 \<le> damp (1 / 2) 1 (13 / 20) (1 / 60) \<and> damp (1 / 2) 1 (13 / 20) (1 / 60) \<le> 1)
   \<and> progressTrace (1 / 2) [(CHAOS, 1 / 60)] = [1 / 2, frameUpdate CHAOS (1 / 60) (1 / 2)]
   \<and> 0 \<le> frameUpdate CHAOS (1 / 60) (1 / 2) \<and> frameUpdate CHAOS (1 / 60) (1 / 2) \<le> 1"
  using damp_stays_in_unit_interval [of "1 / 2" 1 "13 / 20" "1 / 60" "[(CHAOS, 1 / 60)]"]
  by simp

lemma frameUpdate_CHAOS: "frameUpdate CHAOS delta progress = exp (- speed * delta) * progress"
  by (simp add: frameUpdate_def modeTarget_def damp_convex)

lemma chaos_trace_descends:
  assumes "\<forall>d \<in> set deltas. 0 \<le> d" and "0 \<le> progress"
  shows "sorted_wrt (\<ge>) (progressTrace progress (map (Pair CHAOS) deltas))
       \<and> (\<forall>q \<in> set (progressTrace progress (map (Pair CHAOS) deltas)). 0 \<le> q \<and> q \<le> progress)"
  using assms
proof (induction deltas arbitrary: progress)
  case Nil
  then show ?case by simp
next
  case (Cons d deltas)
  have d: "0 \<le> speed * d"
    using Cons.prems(1) by (simp add: speed_def)
  have next_range: "0 \<le> frameUpdate CHAOS d progress \<and> frameUpdate CHAOS d progress \<le> progress"
    using damp_between_down [OF d Cons.prems(2)]
    by (simp add: frameUpdate_def modeTarget_def)
  have "sorted_wrt (\<ge>) (progressTrace (frameUpdate CHAOS d progress) (map (Pair CHAOS) deltas))
      \<and> (\<forall>q \<in> set (progressTrace (frameUpdate CHAOS d progress) (map (Pair CHAOS) deltas)).
            0 \<le> q \<and> q \<le> frameUpdate CHAOS d progress)"
    using Cons.IH [of "frameUpdate CHAOS d progress"] Cons.prems(1) next_range by simp
  with next_range Cons.prems(2) show ?case
    by auto
qed

lemma chaos_trace_last:
  "last (progressTrace progress (map (Pair CHAOS) deltas))
   = exp (- speed * sum_list deltas) * progress"
proof (induction deltas arbitrary: progress)
  case Nil
  then show ?case by simp
next
  case (Cons d deltas)
  have ne: "progressTrace (frameUpdate CHAOS d progress) (map (Pair CHAOS) deltas) \<noteq> []"
    by (cases deltas) simp_all
  have "last (progressTrace progress (map (Pair CHAOS) (d # deltas)))
        = exp (- speed * sum_list deltas) * (exp (- speed * d) * progress)"
    using ne Cons.IH [of "frameUpdate CHAOS d progress"] by (simp add: frameUpdate_CHAOS)
  also have "\<dots> = exp (- speed * sum_list (d # deltas)) * progress"
    by (simp add: exp_add [symmetric] algebra_simps)
  finally show ?case .
qed

text \<open>
  C5. For every progress \<open>p\<close>, target \<open>T\<close> and non-negative frame delta, the damped update
  lies between \<open>p\<close> and \<open>T\<close> inclusive, and is no farther from \<open>T\<close> than \<open>p\<close> was. Starting
  at the progress 1 of the mode FORMED, with the target 0 of the mode CHAOS at every
  frame, the progress values are non-increasing and stay at or above 0; after frames of
  total duration \<open>s\<close> the progress is \<open>exp (- 0.65 * s)\<close>.
\<close>

theorem damped_update_between:
  assumes "0 \<le> delta"
  shows "min p T \<le> damp p T speed delta \<and> damp p T speed delta \<le> max p T
       \<and> \<bar>damp p T speed delta - T\<bar> \<le> \<bar>p - T\<bar>
       \<and> ((\<forall>d \<in> set deltas. 0 \<le> d) \<longrightarrow>
            sorted_wrt (\<ge>) (progressTrace (initialProgress FORMED) (map (Pair CHAOS) deltas))
          \<and> (\<forall>q \<in> set (progressTrace (initialProgress FORMED) (map (Pair CHAOS) deltas)). 0 \<le> q)
          \<and> last (progressTrace (initialProgress FORMED) (map (Pair CHAOS) deltas))
              = exp (- speed * sum_list deltas))"
proof -
  have nn: "0 \<le> speed * delta"
    using assms by (simp add: speed_def)
  have between: "min p T \<le> damp p T speed delta \<and> damp p T speed delta \<le> max p T
       \<and> \<bar>damp p T speed delta - T\<bar> \<le> \<bar>p - T\<bar>"
  proof (cases "p \<le> T")
    case True
    from damp_between_up [OF nn True] True show ?thesis by simp
  next
    case False
    then have "T \<le> p" by simp
    from damp_between_down [OF nn this] False show ?thesis by simp
  qed
  have "sorted_wrt (\<ge>) (progressTrace (initialProgress FORMED) (map (Pair CHAOS) deltas))
          \<and> (\<forall>q \<in> set (progressTrace (initialProgress FORMED) (map (Pair CHAOS) deltas)). 0 \<le> q)"
    if "\<forall>d \<in> set deltas. 0 \<le> d"
    using chaos_trace_descends [OF that, of "initialProgress FORMED"]
    by (simp add: initialProgress_def)
  moreover have "last (progressTrace (initialProgress FORMED) (map (Pair CHAOS) deltas))
              = exp (- speed * sum_list deltas)"
    by (simp add: chaos_trace_last initialProgress_def)
  ultimately show ?thesis
    using between by blast
qed

theorem damped_update_between_witness:
  "min (1 / 2) 0 \<le> damp (1 / 2) 0 speed (1 / 60) \<and> damp (1 / 2) 0 speed (1 / 60) \<le> max (1 / 2) 0
   \<and> \<bar>damp (1 / 2) 0 speed (1 / 60) - 0\<bar> \<le> \<bar>1 / 2 - 0 :: real\<bar>
   \<and> sorted_wrt (\<ge>) (progressTrace (initialProgress FORMED) (map (Pair CHAOS) [1 / 60, 1 / 30]))
   \<and> 0 \<le> frameUpdate CHAOS (1 / 60) 1
   \<and> 0 \<le> frameUpdate CHAOS (1 / 30) (frameUpdate CHAOS (1 / 60) 1)
   \<and> last (progressTrace (initialProgress FORMED) (map (Pair CHAOS) [1 / 60, 1 / 30]))
       = exp (- speed * sum_list [1 / 60, 1 / 30])"
proof -
  have d: "(0::real) \<le> 1 / 60" and ds: "\<forall>d \<in> set [1 / 60, 1 / 30 :: real]. 0 \<le> d"
    by simp_all
  have "\<forall>q \<in> set (progressTrace (initialProgress FORMED) (map (Pair CHAOS) [1 / 60, 1 / 30])).
          0 \<le> q"
    using damped_update_between [OF d, of "1 / 2" 0 "[1 / 60, 1 / 30]"] ds by blast
  then have "0 \<le> frameUpdate CHAOS (1 / 60) 1"
    and "0 \<le> frameUpdate CHAOS (1 / 30) (frameUpdate CHAOS (1 / 60) 1)"
    by (simp_all add: initialProgress_def)
  with damped_update_between [OF d, of "1 / 2" 0 "[1 / 60, 1 / 30]"] ds show ?thesis
    by blast
qed

section \<open>Ornament fractions\<close>

lemma smoothstep_unit_range: "0 \<le> smoothstep p 0 1 \<and> smoothstep p 0 1 \<le> 1"
proof -
  have "0 \<le> p * p * (3 - 2 * p) \<and> p * p * (3 - 2 * p) \<le> 1" if "0 < p" and "p < 1"
  proof
    show "0 \<le> p * p * (3 - 2 * p)"
      using that by simp
    have "1 - p * p * (3 - 2 * p) = (1 - p) * (1 - p) * (1 + 2 * p)"
      by (simp add: algebra_simps)
    moreover have "0 \<le> (1 - p) * (1 - p) * (1 + 2 * p)"
      using that by simp
    ultimately show "p * p * (3 - 2 * p) \<le> 1"
      by simp
  qed
  then show ?thesis
    by (simp add: smoothstep_def Let_def)
qed

lemma ornamentT_positive_weight:
  assumes "0 < w"
  shows "ornamentT progress w = Some (smoothstep progress 0 1 powr (1 / w))"
  using assms smoothstep_unit_range [of progress]
  by (simp add: ornamentT_def js_pow_def Let_def)

lemma ornamentT_unit_range:
  assumes "0 < w"
  shows "0 \<le> smoothstep progress 0 1 powr (1 / w)
       \<and> smoothstep progress 0 1 powr (1 / w) \<le> 1"
  using assms smoothstep_unit_range [of progress] by (simp add: powr_le1)

lemma smoothstep_half: "smoothstep (1 / 2) 0 1 = 1 / 2"
  by (simp add: smoothstep_def Let_def)

text \<open>
  C1. With \<open>t(w) = smoothstep(p, 0, 1) ** (1 / w)\<close> for a group of weight \<open>w > 0\<close>: a
  weight below 1 gives \<open>t(w) \<le> smoothstep(p, 0, 1)\<close> (the group lags behind the eased
  progress), a weight above 1 gives \<open>t(w) \<ge> smoothstep(p, 0, 1)\<close> (the group runs ahead
  of it), and \<open>t\<close> grows with the weight, so groups of larger weight arrive earlier. This
  holds for every progress \<open>p\<close>.
\<close>

theorem ornament_weight_order:
  assumes "0 < w" and "w < 1" and "1 < w'" and "0 < a" and "a \<le> b"
  shows "ornamentT p w = Some (smoothstep p 0 1 powr (1 / w))
       \<and> smoothstep p 0 1 powr (1 / w) \<le> smoothstep p 0 1
       \<and> ornamentT p w' = Some (smoothstep p 0 1 powr (1 / w'))
       \<and> smoothstep p 0 1 \<le> smoothstep p 0 1 powr (1 / w')
       \<and> ornamentT p a = Some (smoothstep p 0 1 powr (1 / a))
       \<and> ornamentT p b = Some (smoothstep p 0 1 powr (1 / b))
       \<and> smoothstep p 0 1 powr (1 / a) \<le> smoothstep p 0 1 powr (1 / b)"
proof -
  let ?s = "smoothstep p 0 1"
  have s: "0 \<le> ?s" "?s \<le> 1"
    using smoothstep_unit_range [of p] by simp_all
  have light: "?s powr (1 / w) \<le> ?s"
  proof -
    have "1 \<le> 1 / w"
      using assms(1,2) by simp
    from powr_mono' [OF this s] s(1) show ?thesis
      by simp
  qed
  have heavy: "?s \<le> ?s powr (1 / w')"
  proof -
    have "1 / w' \<le> 1"
      using assms(3) by simp
    from powr_mono' [OF this s] s(1) show ?thesis
      by simp
  qed
  have mono: "?s powr (1 / a) \<le> ?s powr (1 / b)"
  proof -
    have "1 / b \<le> 1 / a"
      using assms(4,5) by (simp add: frac_le)
    from powr_mono' [OF this s] show ?thesis .
  qed
  have "0 < w'" "0 < b"
    using assms by simp_all
  then show ?thesis
    using light heavy mono assms(1,4) by (simp add: ornamentT_positive_weight)
qed

theorem ornament_weight_order_witness:
  "ornamentT (1 / 2) lightWeight = Some (smoothstep (1 / 2) 0 1 powr (1 / lightWeight))
   \<and> smoothstep (1 / 2) 0 1 powr (1 / lightWeight) \<le> smoothstep (1 / 2) 0 1
   \<and> ornamentT (1 / 2) giftWeight = Some (smoothstep (1 / 2) 0 1 powr (1 / giftWeight))
   \<and> smoothstep (1 / 2) 0 1 \<le> smoothstep (1 / 2) 0 1 powr (1 / giftWeight)
   \<and> ornamentT (1 / 2) lightWeight = Some (smoothstep (1 / 2) 0 1 powr (1 / lightWeight))
   \<and> ornamentT (1 / 2) globeWeight = Some (smoothstep (1 / 2) 0 1 powr (1 / globeWeight))
   \<and> smoothstep (1 / 2) 0 1 powr (1 / lightWeight)
       \<le> smoothstep (1 / 2) 0 1 powr (1 / globeWeight)"
proof -
  have pos: "0 < lightWeight" and light: "lightWeight < 1" and heavy: "1 < giftWeight"
    and le: "lightWeight \<le> globeWeight"
    by (simp_all add: lightWeight_def giftWeight_def globeWeight_def)
  show ?thesis
    by (rule ornament_weight_order [OF pos light heavy pos le])
qed

text \<open>
  The lights have the weight 0.6, below 1. At the progress \<open>1 / 2\<close> the eased progress
  is \<open>1 / 2\<close> and their fraction is \<open>(1 / 2) ** (5 / 3)\<close>, which is below \<open>1 / 2\<close>, not at
  or above it.
\<close>

theorem light_group_lags_counterexample:
  "lightWeight < 1
   \<and> ornamentT (1 / 2) lightWeight = Some ((1 / 2) powr (5 / 3))
   \<and> \<not> ((1 / 2) powr (5 / 3) \<ge> smoothstep (1 / 2) 0 1)"
proof -
  have "(1 / 2 :: real) powr (5 / 3) < (1 / 2) powr 1"
    by (rule powr_less_mono') simp_all
  then have "\<not> ((1 / 2 :: real) powr (5 / 3) \<ge> 1 / 2)"
    by simp
  moreover have "ornamentT (1 / 2) lightWeight = Some ((1 / 2) powr (5 / 3))"
    by (simp add: ornamentT_def js_pow_def Let_def smoothstep_half lightWeight_def)
  ultimately show ?thesis
    by (simp add: smoothstep_half lightWeight_def)
qed

text \<open>
  C3. At the same progress, the fraction \<open>t1\<close> of a group of weight 1 is the eased
  progress itself and the fraction \<open>t2\<close> of a group of weight 2 is its square root:
  \<open>t1 = t2 * t2\<close>.
\<close>

theorem weight_two_is_square_root:
  "ornamentT p 1 = Some (smoothstep p 0 1)
   \<and> ornamentT p 2 = Some (sqrt (smoothstep p 0 1))
   \<and> smoothstep p 0 1 = sqrt (smoothstep p 0 1) * sqrt (smoothstep p 0 1)"
  using smoothstep_unit_range [of p]
  by (simp add: ornamentT_positive_weight powr_half_sqrt)

text \<open>
  At the progress \<open>1 / 2\<close>: \<open>t1 = 1 / 2\<close> and \<open>t2 = sqrt (1 / 2)\<close>, which is not
  \<open>t1 * t1 = 1 / 4\<close>.
\<close>

theorem weight_two_not_square_counterexample:
  "ornamentT (1 / 2) 1 = Some (1 / 2)
   \<and> ornamentT (1 / 2) 2 = Some (sqrt (1 / 2))
   \<and> sqrt (1 / 2) \<noteq> (1 / 2) * (1 / 2)"
proof -
  have "sqrt (1 / 2) \<noteq> (1 / 4 :: real)"
  proof
    assume eq: "sqrt (1 / 2) = (1 / 4 :: real)"
    have "(sqrt (1 / 2 :: real))\<^sup>2 = 1 / 2"
      by (rule real_sqrt_pow2) simp
    with eq have "(1 / 4 :: real)\<^sup>2 = 1 / 2"
      by (simp only:)
    then show False
      by (simp add: power2_eq_square)
  qed
  then show ?thesis
    by (simp add: ornamentT_positive_weight powr_half_sqrt smoothstep_half)
qed

lemma lerp3_on_segment:
  assumes "0 \<le> t" and "t \<le> 1"
  shows "on_segment a b (lerp3 a b t)"
  using assms unfolding on_segment_def by blast

lemma mix3_lerp3: "mix3 a b t = lerp3 a b t"
  by (simp add: mix3_def lerp3_def algebra_simps)

lemma ornamentInstance_positive_weight:
  assumes "0 < w"
  shows "ornamentInstance c g w p =
           Some (Instance (lerp3 c g (smoothstep p 0 1 powr (1 / w)))
                   (Vector3 (smoothstep p 0 1 powr (1 / w) * pi * 1.4)
                            (smoothstep p 0 1 powr (1 / w) * pi * 2.2) 0)
                   (0.12 + (1 - smoothstep p 0 1 powr (1 / w)) * 0.04))"
  by (simp add: ornamentInstance_def ornamentT_positive_weight [OF assms])

text \<open>
  C9. For every real progress, also outside \<open>[0, 1]\<close>, and every group of positive
  weight: the eased progress \<open>smoothstep(progress, 0, 1)\<close> lies in \<open>[0, 1]\<close>, the fraction
  \<open>t\<close> is a number in \<open>[0, 1]\<close>, the position of the instance is \<open>lerp(chaos, target, t)\<close>
  on the closed segment between the chaos and the target position, and its scale
  \<open>0.12 + (1 - t) * 0.04\<close> lies in \<open>[0.12, 0.16]\<close>.
\<close>

theorem ornament_clamped:
  assumes "0 < w"
  shows "0 \<le> smoothstep p 0 1 \<and> smoothstep p 0 1 \<le> 1
       \<and> (\<exists>t inst. ornamentT p w = Some t \<and> 0 \<le> t \<and> t \<le> 1
             \<and> ornamentInstance c g w p = Some inst
             \<and> instPosition inst = lerp3 c g t
             \<and> on_segment c g (instPosition inst)
             \<and> 0.12 \<le> instScale inst \<and> instScale inst \<le> 0.16)"
proof -
  let ?t = "smoothstep p 0 1 powr (1 / w)"
  have t: "0 \<le> ?t" "?t \<le> 1"
    using ornamentT_unit_range [OF assms, of p] by simp_all
  have "on_segment c g (lerp3 c g ?t)"
    using t by (rule lerp3_on_segment)
  moreover have "(0.12 :: real) \<le> 0.12 + (1 - ?t) * 0.04" "0.12 + (1 - ?t) * 0.04 \<le> (0.16 :: real)"
    using t by simp_all
  ultimately show ?thesis
    using t smoothstep_unit_range [of p]
    by (simp add: ornamentT_positive_weight [OF assms] ornamentInstance_positive_weight [OF assms])
qed

theorem ornament_clamped_witness:
  "0 \<le> smoothstep 7 0 1 \<and> smoothstep 7 0 1 \<le> 1
   \<and> (\<exists>t inst. ornamentT 7 giftWeight = Some t \<and> 0 \<le> t \<and> t \<le> 1
         \<and> ornamentInstance (Vector3 1 2 3) (Vector3 0 1 0) giftWeight 7 = Some inst
         \<and> instPosition inst = lerp3 (Vector3 1 2 3) (Vector3 0 1 0) t
         \<and> on_segment (Vector3 1 2 3) (Vector3 0 1 0) (instPosition inst)
         \<and> 0.12 \<le> instScale inst \<and> instScale inst \<le> 0.16)"
proof -
  have "0 < giftWeight"
    by (simp add: giftWeight_def)
  then show ?thesis
    by (rule ornament_clamped)
qed

section \<open>Displayed positions\<close>

subsection \<open>Foliage shimmer\<close>

lemma length3_zero_iff: "length3 a = 0 \<longleftrightarrow> a = Vector3 0 0 0"
proof -
  have "(vx a)\<^sup>2 + (vy a)\<^sup>2 + (vz a)\<^sup>2 = 0 \<longleftrightarrow> vx a = 0 \<and> vy a = 0 \<and> vz a = 0"
    by (simp add: sum_power2_eq_zero_iff add_nonneg_eq_0_iff)
  then show ?thesis
    by (cases a) (simp add: length3_def)
qed

lemma length3_scaled_unit:
  assumes "length3 a \<noteq> 0"
  shows "length3 (Vector3 (vx a / length3 a * k) (vy a / length3 a * k) (vz a / length3 a * k))
         = \<bar>k\<bar>"
proof -
  let ?n = "(vx a)\<^sup>2 + (vy a)\<^sup>2 + (vz a)\<^sup>2"
  have n: "(length3 a)\<^sup>2 = ?n"
    by (simp add: length3_def)
  have pos: "?n \<noteq> 0"
    using assms n by auto
  have "(vx a / length3 a * k)\<^sup>2 + (vy a / length3 a * k)\<^sup>2 + (vz a / length3 a * k)\<^sup>2
        = ?n / (length3 a)\<^sup>2 * k\<^sup>2"
    by (simp add: power_mult_distrib power_divide add_divide_distrib distrib_right)
  also have "\<dots> = k\<^sup>2"
    using pos by (simp add: n)
  finally show ?thesis
    by (simp add: length3_def)
qed

lemma foliageWave_bound: "\<bar>foliageWave uTime sparkle\<bar> \<le> 0.05"
proof -
  have "\<bar>sin (uTime * 1.5 + sparkle * 12)\<bar> \<le> 1"
    by (rule abs_sin_le_one)
  then show ?thesis
    by (simp add: foliageWave_def abs_mult)
qed

lemma foliageVertex_offset:
  assumes "mix3 c g p \<noteq> Vector3 0 0 0"
  shows "\<exists>q. foliageVertex c g sparkle p uTime = Some q
           \<and> sub3 q (mix3 c g p)
               = Vector3 (vx (mix3 c g p) / length3 (mix3 c g p) * foliageWave uTime sparkle)
                         (vy (mix3 c g p) / length3 (mix3 c g p) * foliageWave uTime sparkle)
                         (vz (mix3 c g p) / length3 (mix3 c g p) * foliageWave uTime sparkle)
           \<and> length3 (sub3 q (mix3 c g p)) = \<bar>foliageWave uTime sparkle\<bar>
           \<and> length3 (sub3 q (mix3 c g p)) \<le> 0.05"
proof -
  let ?m = "mix3 c g p"
  let ?k = "foliageWave uTime sparkle"
  let ?q = "Vector3 (vx ?m + vx ?m / length3 ?m * ?k) (vy ?m + vy ?m / length3 ?m * ?k)
                    (vz ?m + vz ?m / length3 ?m * ?k)"
  have ne: "length3 ?m \<noteq> 0"
    using assms by (simp add: length3_zero_iff)
  then have vertex: "foliageVertex c g sparkle p uTime = Some ?q"
    by (simp add: foliageVertex_def normalize3_def Let_def)
  have offset: "sub3 ?q ?m
        = Vector3 (vx ?m / length3 ?m * ?k) (vy ?m / length3 ?m * ?k) (vz ?m / length3 ?m * ?k)"
    by (simp add: sub3_def)
  then have "length3 (sub3 ?q ?m) = \<bar>?k\<bar>"
    using length3_scaled_unit [OF ne, of ?k] by (simp only:)
  with vertex offset foliageWave_bound [of uTime sparkle] show ?thesis
    by simp
qed





subsection \<open>Positions along a run\<close>

lemma ornamentFrame_nth:
  assumes "i < length (chaos d)" and "length (target d) = length (chaos d)"
  shows "ornamentFrame d p ! i = ornamentInstance (chaos d ! i) (target d ! i) (weight d) p"
  using assms by (simp add: ornamentFrame_def)

lemma initialProgress_range: "0 \<le> initialProgress m \<and> initialProgress m \<le> 1"
  by (simp add: initialProgress_def)

text \<open>
  C2. At every frame of a run (frames with non-negative deltas, from the initial progress
  of either mode), with \<open>p\<close> the progress at that frame: every member of an ornament
  group of positive weight is placed at \<open>lerp(chaos, target, t)\<close> with \<open>t\<close> in \<open>[0, 1]\<close>, on
  the closed segment between its chaos and its target position. For every foliage
  particle the progress \<open>p\<close> is in \<open>[0, 1]\<close>, the interpolated point
  \<open>mix(position, target, p)\<close> is \<open>lerp(chaos, target, p)\<close> on the closed segment between its
  chaos and its target position, and, when that point is not the origin, the position
  that the vertex shader displays is that point of the segment plus the shimmer offset:
  the unit vector of the point times \<open>sin(time * 1.5 + sparkle * 12) * 0.05\<close>, a vector of
  norm at most 0.05.
\<close>

theorem displayed_positions_on_segment:
  assumes "\<forall>f \<in> set frames. 0 \<le> snd f"
    and "p \<in> set (progressTrace (initialProgress m) frames)"
    and "0 < weight d" and "length (target d) = length (chaos d)" and "i < length (chaos d)"
  shows "(\<exists>t inst. ornamentT p (weight d) = Some t \<and> 0 \<le> t \<and> t \<le> 1
            \<and> ornamentFrame d p ! i = Some inst
            \<and> instPosition inst = lerp3 (chaos d ! i) (target d ! i) t
            \<and> on_segment (chaos d ! i) (target d ! i) (instPosition inst))
       \<and> 0 \<le> p \<and> p \<le> 1
       \<and> mix3 c g p = lerp3 c g p
       \<and> on_segment c g (mix3 c g p)
       \<and> (mix3 c g p \<noteq> Vector3 0 0 0 \<longrightarrow>
            (\<exists>q. foliageVertex c g sparkle p uTime = Some q
               \<and> sub3 q (mix3 c g p)
                   = Vector3 (vx (mix3 c g p) / length3 (mix3 c g p) * foliageWave uTime sparkle)
                             (vy (mix3 c g p) / length3 (mix3 c g p) * foliageWave uTime sparkle)
                             (vz (mix3 c g p) / length3 (mix3 c g p) * foliageWave uTime sparkle)
               \<and> length3 (sub3 q (mix3 c g p)) = \<bar>foliageWave uTime sparkle\<bar>
               \<and> length3 (sub3 q (mix3 c g p)) \<le> 0.05))"
proof -
  have p: "0 \<le> p" "p \<le> 1"
    using progressTrace_range [OF assms(1), of "initialProgress m"] initialProgress_range [of m]
      assms(2) by simp_all
  let ?t = "smoothstep p 0 1 powr (1 / weight d)"
  have t: "0 \<le> ?t" "?t \<le> 1"
    using ornamentT_unit_range [OF assms(3), of p] by simp_all
  have "on_segment (chaos d ! i) (target d ! i) (lerp3 (chaos d ! i) (target d ! i) ?t)"
    using t by (rule lerp3_on_segment)
  then have ornament: "\<exists>t inst. ornamentT p (weight d) = Some t \<and> 0 \<le> t \<and> t \<le> 1
            \<and> ornamentFrame d p ! i = Some inst
            \<and> instPosition inst = lerp3 (chaos d ! i) (target d ! i) t
            \<and> on_segment (chaos d ! i) (target d ! i) (instPosition inst)"
    using t
    by (simp add: ornamentFrame_nth [OF assms(5,4)] ornamentT_positive_weight [OF assms(3)]
        ornamentInstance_positive_weight [OF assms(3)])
  have segment: "on_segment c g (mix3 c g p)"
    using lerp3_on_segment [OF p] by (simp only: mix3_lerp3)
  have mix: "mix3 c g p = lerp3 c g p"
    by (rule mix3_lerp3)
  have shimmer: "mix3 c g p \<noteq> Vector3 0 0 0 \<longrightarrow>
            (\<exists>q. foliageVertex c g sparkle p uTime = Some q
               \<and> sub3 q (mix3 c g p)
                   = Vector3 (vx (mix3 c g p) / length3 (mix3 c g p) * foliageWave uTime sparkle)
                             (vy (mix3 c g p) / length3 (mix3 c g p) * foliageWave uTime sparkle)
                             (vz (mix3 c g p) / length3 (mix3 c g p) * foliageWave uTime sparkle)
               \<and> length3 (sub3 q (mix3 c g p)) = \<bar>foliageWave uTime sparkle\<bar>
               \<and> length3 (sub3 q (mix3 c g p)) \<le> 0.05)"
    using foliageVertex_offset [of c g p sparkle uTime] by (rule impI)
  from ornament p mix segment shimmer show ?thesis
    by (intro conjI)
qed

theorem displayed_positions_on_segment_witness:
  "(\<exists>t inst. ornamentT (frameUpdate CHAOS (1 / 60) 1) (weight
          \<lparr>chaos = [Vector3 1 2 3], target = [Vector3 0 1 0], weight = giftWeight\<rparr>) = Some t
        \<and> 0 \<le> t \<and> t \<le> 1
        \<and> ornamentFrame
             \<lparr>chaos = [Vector3 1 2 3], target = [Vector3 0 1 0], weight = giftWeight\<rparr>
             (frameUpdate CHAOS (1 / 60) 1) ! 0 = Some inst
        \<and> instPosition inst = lerp3 (chaos
          \<lparr>chaos = [Vector3 1 2 3], target = [Vector3 0 1 0], weight = giftWeight\<rparr> ! 0) (target
          \<lparr>chaos = [Vector3 1 2 3], target = [Vector3 0 1 0], weight = giftWeight\<rparr> ! 0) t
        \<and> on_segment (chaos
          \<lparr>chaos = [Vector3 1 2 3], target = [Vector3 0 1 0], weight = giftWeight\<rparr> ! 0) (target
          \<lparr>chaos = [Vector3 1 2 3], target = [Vector3 0 1 0], weight = giftWeight\<rparr> ! 0) (instPosition inst))
   \<and> 0 \<le> frameUpdate CHAOS (1 / 60) 1 \<and> frameUpdate CHAOS (1 / 60) 1 \<le> 1
   \<and> on_segment (Vector3 1 0 0) (Vector3 3 0 0)
       (mix3 (Vector3 1 0 0) (Vector3 3 0 0) (frameUpdate CHAOS (1 / 60) 1))
   \<and> (\<exists>q. foliageVertex (Vector3 1 0 0) (Vector3 3 0 0) 0 (frameUpdate CHAOS (1 / 60) 1) 1
             = Some q
         \<and> length3 (sub3 q (mix3 (Vector3 1 0 0) (Vector3 3 0 0) (frameUpdate CHAOS (1 / 60) 1)))
             = \<bar>foliageWave 1 0\<bar>
         \<and> length3 (sub3 q (mix3 (Vector3 1 0 0) (Vector3 3 0 0) (frameUpdate CHAOS (1 / 60) 1)))
             \<le> 0.05)"
proof -
  let ?p = "frameUpdate CHAOS (1 / 60) 1"
  have frames: "\<forall>f \<in> set [(CHAOS, 1 / 60 :: real)]. 0 \<le> snd f"
    by simp
  have reached: "?p \<in> set (progressTrace (initialProgress FORMED) [(CHAOS, 1 / 60)])"
    by (simp add: initialProgress_def)
  have heavy: "0 < weight
          \<lparr>chaos = [Vector3 1 2 3], target = [Vector3 0 1 0], weight = giftWeight\<rparr>"
    by (simp add: giftWeight_def)
  have lens: "length (target
          \<lparr>chaos = [Vector3 1 2 3], target = [Vector3 0 1 0], weight = giftWeight\<rparr>) = length (chaos
          \<lparr>chaos = [Vector3 1 2 3], target = [Vector3 0 1 0], weight = giftWeight\<rparr>)"
    by simp
  have member: "0 < length (chaos
          \<lparr>chaos = [Vector3 1 2 3], target = [Vector3 0 1 0], weight = giftWeight\<rparr>)"
    by simp
  note run = displayed_positions_on_segment [OF frames reached heavy lens member,
      of "Vector3 1 0 0" "Vector3 3 0 0" 0 1]
  from run have "0 \<le> ?p"
    by (elim conjE)
  then have "vx (mix3 (Vector3 1 0 0) (Vector3 3 0 0) ?p) \<noteq> 0"
    by (simp add: mix3_def algebra_simps)
  then have "mix3 (Vector3 1 0 0) (Vector3 3 0 0) ?p \<noteq> Vector3 0 0 0"
    by auto
  with run show ?thesis
    by blast
qed

lemma sin_three_halves_pos: "0 < sin (3 / 2 :: real)"
proof (rule sin_gt_zero)
  show "(0::real) < 3 / 2"
    by simp
  show "(3 / 2 :: real) < pi"
    using pi_ge_two by simp
qed

text \<open>
  The displayed foliage position itself can leave the segment: at the initial progress 1
  of the mode FORMED and time 1, the particle with chaos position \<open>(1, 0, 0)\<close>, target
  \<open>(1.21, 0, 0)\<close> and sparkle 0 is displayed at \<open>(1.21 + 0.05 * sin 1.5, 0, 0)\<close>, beyond
  its target.
\<close>

theorem foliage_off_segment_counterexample:
  "foliageVertex (Vector3 1 0 0) (Vector3 (121 / 100) 0 0) 0 (initialProgress FORMED) 1
     = Some (Vector3 (121 / 100 + sin (3 / 2) * 0.05) 0 0)
   \<and> \<not> on_segment (Vector3 1 0 0) (Vector3 (121 / 100) 0 0)
         (Vector3 (121 / 100 + sin (3 / 2) * 0.05) 0 0)"
proof
  show "foliageVertex (Vector3 1 0 0) (Vector3 (121 / 100) 0 0) 0 (initialProgress FORMED) 1
     = Some (Vector3 (121 / 100 + sin (3 / 2) * 0.05) 0 0)"
    by (simp add: foliageVertex_def normalize3_def mix3_def length3_def Let_def
        initialProgress_def foliageWave_def)
  show "\<not> on_segment (Vector3 1 0 0) (Vector3 (121 / 100) 0 0)
         (Vector3 (121 / 100 + sin (3 / 2) * 0.05) 0 0)"
  proof
    assume "on_segment (Vector3 1 0 0) (Vector3 (121 / 100) 0 0)
         (Vector3 (121 / 100 + sin (3 / 2) * 0.05) 0 0)"
    then obtain s :: real where s: "s \<le> 1"
      and eq: "121 / 100 + sin (3 / 2) * 0.05 = 1 + (121 / 100 - 1) * s"
      by (auto simp: on_segment_def lerp3_def)
    have "1 + (121 / 100 - 1) * s \<le> (121 / 100 :: real)"
      using s by simp
    with eq sin_three_halves_pos show False
      by simp
  qed
qed

section \<open>Cone sampler\<close>

lemma horizontal_polar: "horizontal (Vector3 (r * cos t) y (r * sin t)) = \<bar>r\<bar>"
proof -
  have "(r * cos t)\<^sup>2 + (r * sin t)\<^sup>2 = r\<^sup>2 * ((cos t)\<^sup>2 + (sin t)\<^sup>2)"
    by (simp only: power_mult_distrib distrib_left)
  also have "\<dots> = r\<^sup>2"
    by simp
  finally show ?thesis
    by (simp add: horizontal_def)
qed

text \<open>
  C7. With the three random draws as inputs \<open>a\<close>, \<open>b\<close>, \<open>c\<close> in \<open>[0, 1)\<close>, a height \<open>h > 0\<close>
  and a base radius \<open>B\<close> (a non-negative number; the scene's are 2.2 and 2.2 * 0.85): the
  height \<open>y0\<close> before the shift lies in \<open>[0, h)\<close>, the
  point's \<open>y\<close> coordinate is \<open>y0 - 0.45 * h\<close> in \<open>[-0.45 * h, 0.55 * h)\<close>, the jitter is at
  most 0.075 in absolute value, and the point's distance from the vertical axis is at
  most \<open>(1 - y0 / h) * B + 0.075\<close>.
\<close>

theorem cone_sampler_bounds:
  assumes "0 < h" and "0 \<le> B" and "0 \<le> a" "a < 1" and "0 \<le> b" "b < 1" and "0 \<le> c" "c < 1"
  shows "0 \<le> coneY h a \<and> coneY h a < h
       \<and> (\<exists>q. randomPointOnCone h B a b c = Some q
             \<and> vy q = coneY h a - 0.45 * h
             \<and> - 0.45 * h \<le> vy q \<and> vy q < 0.55 * h
             \<and> horizontal q = \<bar>(1 - coneY h a / h) * B + coneJitter c\<bar>
             \<and> \<bar>coneJitter c\<bar> \<le> 0.075
             \<and> horizontal q \<le> (1 - coneY h a / h) * B + 0.075)"
proof -
  have y: "0 \<le> coneY h a" "coneY h a < h"
    using assms(1,3,4) by (simp_all add: coneY_def)
  have radius: "0 \<le> (1 - coneY h a / h) * B"
    using assms(1,2,4) by (simp add: coneY_def)
  have jitter: "- 0.075 \<le> coneJitter c" "coneJitter c \<le> 0.075"
    using assms(7,8) by (simp_all add: coneJitter_def)
  have point: "randomPointOnCone h B a b c
      = Some (Vector3 (((1 - coneY h a / h) * B + coneJitter c) * cos (b * pi * 2))
                (coneY h a - h * 0.45)
                (((1 - coneY h a / h) * B + coneJitter c) * sin (b * pi * 2)))"
    using assms(1) by (simp add: randomPointOnCone_def coneRadius_def Let_def)
  have "\<bar>(1 - coneY h a / h) * B + coneJitter c\<bar> \<le> (1 - coneY h a / h) * B + 0.075"
    using radius jitter by linarith
  moreover have "- 0.45 * h \<le> coneY h a - h * 0.45" "coneY h a - h * 0.45 < 0.55 * h"
    using y by simp_all
  moreover have "\<bar>coneJitter c\<bar> \<le> 0.075"
    using jitter by (simp add: abs_le_iff)
  ultimately show ?thesis
    using y by (simp add: point horizontal_polar)
qed

theorem cone_sampler_bounds_witness:
  "0 \<le> coneY (26 / 5) (1 / 2) \<and> coneY (26 / 5) (1 / 2) < 26 / 5
   \<and> (\<exists>q. randomPointOnCone (26 / 5) (11 / 5) (1 / 2) 0 (1 / 4) = Some q
         \<and> vy q = coneY (26 / 5) (1 / 2) - 0.45 * (26 / 5)
         \<and> - 0.45 * (26 / 5) \<le> vy q \<and> vy q < 0.55 * (26 / 5)
         \<and> horizontal q = \<bar>(1 - coneY (26 / 5) (1 / 2) / (26 / 5)) * (11 / 5) + coneJitter (1 / 4)\<bar>
         \<and> \<bar>coneJitter (1 / 4)\<bar> \<le> 0.075
         \<and> horizontal q \<le> (1 - coneY (26 / 5) (1 / 2) / (26 / 5)) * (11 / 5) + 0.075)"
  by (rule cone_sampler_bounds) simp_all

section \<open>Auto-shift timer\<close>

lemma step_keeps_timer:
  assumes "step e s = Some s'" and "interval s = autoShiftEffect (autoShift s)"
  shows "interval s' = autoShiftEffect (autoShift s')"
  using assms by (cases e) (auto split: option.splits)

lemma run_keeps_timer:
  assumes "run es s = Some s'" and "interval s = autoShiftEffect (autoShift s)"
  shows "interval s' = autoShiftEffect (autoShift s')"
  using assms
proof (induction es arbitrary: s)
  case Nil
  then show ?case by simp
next
  case (Cons e es)
  from Cons.prems(1) obtain s1 where s1: "step e s = Some s1" and rest: "run es s1 = Some s'"
    by (auto split: option.splits)
  show ?case
    by (rule Cons.IH [OF rest step_keeps_timer [OF s1 Cons.prems(2)]])
qed

lemma ticks_flip:
  assumes "interval s = Some ms"
  shows "run (replicate n Tick) s = Some (s\<lparr>mode := (flipMode ^^ n) (mode s)\<rparr>)"
  using assms
proof (induction n arbitrary: s)
  case 0
  then show ?case by simp
next
  case (Suc n)
  have "interval (s\<lparr>mode := flipMode (mode s)\<rparr>) = Some ms"
    using Suc.prems by simp
  from Suc.IH [OF this] Suc.prems show ?case
    by (simp add: funpow_swap1)
qed

text \<open>
  C8. In every state that the application reaches from its mount by interval ticks and
  clicks: the registered interval has the period 6500 ms exactly when auto-shift is
  enabled, and none is registered when it is disabled. While auto-shift is enabled a
  tick flips the mode (FORMED to CHAOS, CHAOS to FORMED) and changes nothing else, so
  \<open>n\<close> ticks flip it \<open>n\<close> times; while it is disabled no tick can occur.
\<close>

theorem auto_shift_ticks:
  assumes "run es mounted = Some s"
  shows "interval s = (if autoShift s then Some 6500 else None)
       \<and> step Tick s = (if autoShift s then Some (s\<lparr>mode := flipMode (mode s)\<rparr>) else None)
       \<and> run (replicate n Tick) s
           = (if autoShift s then Some (s\<lparr>mode := (flipMode ^^ n) (mode s)\<rparr>)
              else if n = 0 then Some s else None)
       \<and> flipMode FORMED = CHAOS \<and> flipMode CHAOS = FORMED"
proof -
  have timer: "interval s = autoShiftEffect (autoShift s)"
    using run_keeps_timer [OF assms] by (simp add: mounted_def)
  show ?thesis
  proof (cases "autoShift s")
    case True
    with timer have on: "interval s = Some 6500"
      by (simp add: autoShiftEffect_def)
    from ticks_flip [OF on, of n] on True show ?thesis
      by (simp add: flipMode_def)
  next
    case False
    with timer have off: "interval s = None"
      by (simp add: autoShiftEffect_def)
    have "run (replicate n Tick) s = (if n = 0 then Some s else None)"
      using off by (cases n) simp_all
    with off False show ?thesis
      by (simp add: flipMode_def)
  qed
qed

theorem auto_shift_ticks_witness:
  "(interval \<lparr>mode = FORMED, autoShift = True, interval = Some 6500\<rparr> = Some 6500
    \<and> step Tick \<lparr>mode = FORMED, autoShift = True, interval = Some 6500\<rparr>
        = Some \<lparr>mode = CHAOS, autoShift = True, interval = Some 6500\<rparr>
    \<and> run (replicate 3 Tick) \<lparr>mode = FORMED, autoShift = True, interval = Some 6500\<rparr>
        = Some \<lparr>mode = CHAOS, autoShift = True, interval = Some 6500\<rparr>)
   \<and> (interval \<lparr>mode = CHAOS, autoShift = False, interval = None\<rparr> = None
    \<and> step Tick \<lparr>mode = CHAOS, autoShift = False, interval = None\<rparr> = None
    \<and> run (replicate 3 Tick) \<lparr>mode = CHAOS, autoShift = False, interval = None\<rparr> = None)"
proof -
  have on: "run [Tick, ClickAutoShift, ClickToggle, ClickAutoShift] mounted
        = Some \<lparr>mode = FORMED, autoShift = True, interval = Some 6500\<rparr>"
    by (simp add: mounted_def autoShiftEffect_def flipMode_def)
  have off: "run [Tick, ClickAutoShift] mounted
        = Some \<lparr>mode = CHAOS, autoShift = False, interval = None\<rparr>"
    by (simp add: mounted_def autoShiftEffect_def flipMode_def)
  from auto_shift_ticks [OF on, of 3] auto_shift_ticks [OF off, of 3] show ?thesis
    by (simp add: flipMode_def numeral_3_eq_3)
qed

end
